theory Spec2Isabelle
  imports Complex_Main "HOL-Library.Signed_Division"
begin

section \<open>The clustered DNA damage scorer (ScoreClusteredDNADamage)\<close>

text \<open>
  A shallow embedding of the scorer's classification pass.  \<open>G4int\<close> values (bp indices,
  tallies, damage-type tags) are modelled as \<open>int\<close>: bp indices are below \<open>100000\<close> by the
  way \<open>ProcessHits\<close> decodes them, so no claim here depends on 32-bit wrap-around.
  \<open>G4double\<close> energies are modelled as \<open>real\<close>; the scorer only adds positive deposits
  and compares sums with a threshold.
\<close>

subsection \<open>DSB pairing: \<open>RecordDSB1D\<close>\<close>

text \<open>
  The two iterators \<open>site1\<close> and \<open>site2\<close> walk over the member vectors
  \<open>fIndicesSSB1\<close> and \<open>fIndicesSSB2\<close>.  Each vector is split at its iterator into the
  elements already passed (and kept) and the elements from the iterator on.
  \<open>vector::erase\<close> removes the element under the iterator and leaves the iterator on its
  successor; \<open>++\<close> moves the element under the iterator to the kept part.  The result is
  the returned vector \<open>indicesDSB1D\<close> and the two member vectors as the call leaves them.
\<close>

fun RecordDSB1D_loop ::
  "int \<Rightarrow> int list \<Rightarrow> int list \<Rightarrow> int list \<Rightarrow> int list \<Rightarrow> int list
     \<Rightarrow> int list \<times> int list \<times> int list" where
  "RecordDSB1D_loop thr kept1 [] kept2 rest2 indicesDSB1D =
     (indicesDSB1D, kept1, kept2 @ rest2)"
| "RecordDSB1D_loop thr kept1 (site1 # rest1) kept2 [] indicesDSB1D =
     (indicesDSB1D, kept1 @ site1 # rest1, kept2)"
| "RecordDSB1D_loop thr kept1 (site1 # rest1) kept2 (site2 # rest2) indicesDSB1D =
     (if \<bar>site2 - site1\<bar> \<le> thr then
        (if site1 \<le> site2
         then RecordDSB1D_loop thr kept1 rest1 kept2 rest2 (indicesDSB1D @ [site1, site2])
         else RecordDSB1D_loop thr kept1 rest1 kept2 rest2 (indicesDSB1D @ [site2, site1]))
      else if site2 - site1 < 0
        then RecordDSB1D_loop thr kept1 (site1 # rest1) (kept2 @ [site2]) rest2 indicesDSB1D
        else RecordDSB1D_loop thr (kept1 @ [site1]) rest1 kept2 (site2 # rest2) indicesDSB1D)"

definition RecordDSB1D_lists :: "int \<Rightarrow> int list \<Rightarrow> int list \<Rightarrow> int list \<times> int list \<times> int list" where
  "RecordDSB1D_lists thr indicesSSB1 indicesSSB2 =
     RecordDSB1D_loop thr [] indicesSSB1 [] indicesSSB2 []"

subsection \<open>Merging the damage lists: \<open>CombineSimpleDamage\<close>\<close>

text \<open>
  One merge stage of \<open>CombineSimpleDamage\<close>: the first \<open>while\<close> loop walks \<open>itSimple\<close>
  over \<open>indicesSimple\<close> (split at the iterator into \<open>passed\<close> and \<open>ahead\<close>) and inserts
  the next damage index in front of the iterator when it is strictly smaller than the entry
  there (\<open>vector::insert\<close> leaves the iterator on the inserted entry); otherwise the
  iterator advances.  The second \<open>while\<close> loop appends what is left of the damage list.
\<close>

fun CombineSimpleDamage_stage ::
  "int \<Rightarrow> int list \<Rightarrow> (int \<times> int) list \<Rightarrow> (int \<times> int) list \<Rightarrow> (int \<times> int) list" where
  "CombineSimpleDamage_stage fId [] passed ahead = passed @ ahead"
| "CombineSimpleDamage_stage fId (d # ds) passed [] = passed @ map (\<lambda>x. (x, fId)) (d # ds)"
| "CombineSimpleDamage_stage fId (d # ds) passed (s # ahead) =
     (if d < fst s then CombineSimpleDamage_stage fId ds passed ((d, fId) # s # ahead)
      else CombineSimpleDamage_stage fId (d # ds) (passed @ [s]) ahead)"

text \<open>
  The whole of \<open>CombineSimpleDamage\<close> on explicit lists: strand-1 SSBs seed the vector, then
  strand-1 BDs, strand-2 SSBs, strand-2 BDs and the DSB list are merged in, in this order.
  The type tags \<open>fIdSSB\<close>, \<open>fIdBD\<close>, \<open>fIdDSB\<close> are constants of the class header.
\<close>

definition CombineSimpleDamage_lists ::
  "int \<Rightarrow> int \<Rightarrow> int \<Rightarrow> int list \<Rightarrow> int list \<Rightarrow> int list \<Rightarrow> int list \<Rightarrow> int list
     \<Rightarrow> (int \<times> int) list" where
  "CombineSimpleDamage_lists idSSB idBD idDSB indicesSSB1 indicesBD1 indicesSSB2 indicesBD2 indicesDSB1D =
     (let s0 = map (\<lambda>x. (x, idSSB)) indicesSSB1;
          s1 = CombineSimpleDamage_stage idBD indicesBD1 [] s0;
          s2 = CombineSimpleDamage_stage idSSB indicesSSB2 [] s1;
          s3 = CombineSimpleDamage_stage idBD indicesBD2 [] s2
      in CombineSimpleDamage_stage idDSB indicesDSB1D [] s3)"

text \<open>The entries of one source list that sit at bp index \<open>k\<close>, tagged.\<close>

definition tagged_at :: "int \<Rightarrow> int \<Rightarrow> int list \<Rightarrow> (int \<times> int) list" where
  "tagged_at k fId ds = map (\<lambda>x. (x, fId)) (filter (\<lambda>x. x = k) ds)"

subsection \<open>Energy maps\<close>

text \<open>
  A \<open>std::map\<close> is modelled by the list of its entries in iteration order, which is the
  ascending order of the keys.  \<open>cmap_at d m k\<close> is the value \<open>m[k]\<close> refers to (the
  default-constructed value \<open>d\<close> when the key is absent), and \<open>cmap_upd d f k m\<close> is the map
  after \<open>m[k]\<close> has been evaluated and the value it refers to replaced by its image under
  \<open>f\<close>; as in C++, evaluating \<open>m[k]\<close> inserts a default-constructed entry for an absent key.
\<close>

type_synonym ('k, 'v) cmap = "('k \<times> 'v) list"

fun cmap_at :: "'v \<Rightarrow> ('k, 'v) cmap \<Rightarrow> 'k \<Rightarrow> 'v" where
  "cmap_at d [] k = d"
| "cmap_at d ((k', v) # m) k = (if k = k' then v else cmap_at d m k)"

fun cmap_upd :: "'v \<Rightarrow> ('v \<Rightarrow> 'v) \<Rightarrow> 'k::linorder \<Rightarrow> ('k, 'v) cmap \<Rightarrow> ('k, 'v) cmap" where
  "cmap_upd d f k [] = [(k, f d)]"
| "cmap_upd d f k ((k', v) # m) =
     (if k < k' then (k, f d) # (k', v) # m
      else if k = k' then (k', f v) # m
      else (k', v) # cmap_upd d f k m)"

text \<open>bp index to energy; split index to that; fibre index to that.\<close>

type_synonym edep_map = "(int, real) cmap"
type_synonym split_map = "(int, edep_map) cmap"
type_synonym fibre_map = "(int, split_map) cmap"

subsection \<open>Simple damage extraction: \<open>RecordSimpleDamage\<close>\<close>

text \<open>
  The \<open>while\<close> loop over \<open>mapEDep[0]\<close>: it reads the first (lowest-key) entry, appends its
  key to \<open>indicesDamage\<close> when its energy reaches the threshold, and erases the entry.  The
  result is the index vector and what is left of \<open>mapEDep[0]\<close>.
\<close>

fun RecordSimpleDamage_loop :: "real \<Rightarrow> edep_map \<Rightarrow> int list \<Rightarrow> int list \<times> edep_map" where
  "RecordSimpleDamage_loop ThreshEDep [] indicesDamage = (indicesDamage, [])"
| "RecordSimpleDamage_loop ThreshEDep ((indexBP, eDep) # rest) indicesDamage =
     RecordSimpleDamage_loop ThreshEDep rest
       (if eDep \<ge> ThreshEDep then indicesDamage @ [indexBP] else indicesDamage)"

text \<open>
  \<open>RecordSimpleDamage\<close> takes \<open>mapEDep\<close> by value: the loop drains the entry under key \<open>0\<close>
  of the function's own copy.  \<open>RecordSimpleDamage_local\<close> is that local copy when the
  function returns; the argument the caller passed is not touched, and only the index
  vector is returned.
\<close>

definition RecordSimpleDamage_local :: "real \<Rightarrow> split_map \<Rightarrow> split_map" where
  "RecordSimpleDamage_local ThreshEDep mapEDep =
     cmap_upd [] (\<lambda>inner. snd (RecordSimpleDamage_loop ThreshEDep inner [])) 0 mapEDep"

definition RecordSimpleDamage :: "real \<Rightarrow> split_map \<Rightarrow> int list" where
  "RecordSimpleDamage ThreshEDep mapEDep =
     fst (RecordSimpleDamage_loop ThreshEDep (cmap_at [] mapEDep 0) [])"

subsection \<open>The scorer object\<close>

text \<open>
  \<open>struct DamageCluster\<close>; its members \<open>end\<close> and \<open>size\<close> are named \<open>end_bp\<close> and
  \<open>size_bp\<close> here.  \<open>DamageCluster0\<close> is the default-constructed cluster.
\<close>

record DamageCluster =
  numSSB :: int
  numBD :: int
  numDSB :: int
  start :: int
  end_bp :: int
  size_bp :: int

definition DamageCluster0 :: DamageCluster where
  "DamageCluster0 = \<lparr>numSSB = 0, numBD = 0, numDSB = 0, start = 0, end_bp = 0, size_bp = 0\<rparr>"

text \<open>One row of the output ntuple, in the order the columns are registered.\<close>

record ntuple_row =
  col_EventID :: int
  col_SSB :: int
  col_DSB :: int
  col_BD :: int
  col_ComplexDSB :: int
  col_NonDSBCluster :: int

datatype error =
    UnrecognizedDamageLabel int
  | ParameterNotFound string

text \<open>
  The member variables of \<open>ScoreClusteredDNADamage\<close> that the classification pass reads or
  writes.  \<open>fIdSSB\<close>, \<open>fIdBD\<close> and \<open>fIdDSB\<close> are the damage-type tags declared in the class
  header; \<open>fNtuple\<close> is the list of rows filled so far.
\<close>

record scorer =
  fThresDistForDSB :: int
  fThresEdepForSSB :: real
  fThresEdepForBD :: real
  fThresDistForCluster :: int
  fNbOfAlgo :: int
  fIdSSB :: int
  fIdBD :: int
  fIdDSB :: int
  fIsActive :: bool
  fSkippedWhileInactive :: int
  fEventID :: int
  fDNAParent :: int
  fTotalSSB :: int
  fTotalBD :: int
  fTotalDSB :: int
  fTotalComplexDSB :: int
  fTotalNonDSBCluster :: int
  fGenVEdepStrand1Backbone :: fibre_map
  fGenVEdepStrand2Backbone :: fibre_map
  fGenVEdepStrand1Base :: fibre_map
  fGenVEdepStrand2Base :: fibre_map
  fVEdepStrand1Backbone :: split_map
  fVEdepStrand2Backbone :: split_map
  fVEdepStrand1Base :: split_map
  fVEdepStrand2Base :: split_map
  fIndicesSSB1 :: "int list"
  fIndicesSSB2 :: "int list"
  fIndicesBD1 :: "int list"
  fIndicesBD2 :: "int list"
  fIndicesDSB1D :: "int list"
  fIndicesSimple :: "(int \<times> int) list"
  fComplexDSBSizes :: "int list"
  fComplexDSBNumSSB :: "int list"
  fComplexDSBNumBD :: "int list"
  fComplexDSBNumDSB :: "int list"
  fComplexDSBNumDamage :: "int list"
  fNonDSBClusterSizes :: "int list"
  fNonDSBClusterNumSSB :: "int list"
  fNonDSBClusterNumBD :: "int list"
  fNonDSBClusterNumDamage :: "int list"
  fNtuple :: "ntuple_row list"

subsection \<open>The member functions on the scorer state\<close>

text \<open>
  \<open>RecordDSB1D\<close> reads and erases from the members \<open>fIndicesSSB1\<close> and \<open>fIndicesSSB2\<close>
  and returns the DSB vector.
\<close>

definition RecordDSB1D :: "scorer \<Rightarrow> int list \<times> scorer" where
  "RecordDSB1D s =
     (case RecordDSB1D_lists (fThresDistForDSB s) (fIndicesSSB1 s) (fIndicesSSB2 s) of
        (indicesDSB1D, ssb1, ssb2) \<Rightarrow>
          (indicesDSB1D, s\<lparr>fIndicesSSB1 := ssb1, fIndicesSSB2 := ssb2\<rparr>))"

definition CombineSimpleDamage :: "scorer \<Rightarrow> (int \<times> int) list" where
  "CombineSimpleDamage s =
     CombineSimpleDamage_lists (fIdSSB s) (fIdBD s) (fIdDSB s)
       (fIndicesSSB1 s) (fIndicesBD1 s) (fIndicesSSB2 s) (fIndicesBD2 s) (fIndicesDSB1D s)"

text \<open>
  \<open>AddDamageToCluster\<close> changes the cluster it is given by reference and the running
  totals; on an unrecognised damage label the program prints a message and exits, which is
  the error result here.
\<close>

definition AddDamageToCluster ::
  "DamageCluster \<Rightarrow> int \<Rightarrow> int \<Rightarrow> bool \<Rightarrow> scorer \<Rightarrow> error + DamageCluster \<times> scorer" where
  "AddDamageToCluster cluster damageSite damageType newCluster s =
     (let cluster1 = (if newCluster then cluster\<lparr>start := damageSite\<rparr>
                      else cluster\<lparr>end_bp := damageSite\<rparr>)
      in if damageType = fIdSSB s then
           Inr (cluster1\<lparr>numSSB := numSSB cluster1 + 1\<rparr>, s\<lparr>fTotalSSB := fTotalSSB s - 1\<rparr>)
         else if damageType = fIdBD s then
           Inr (cluster1\<lparr>numBD := numBD cluster1 + 1\<rparr>, s\<lparr>fTotalBD := fTotalBD s - 1\<rparr>)
         else if damageType = fIdDSB s then
           Inr (cluster1\<lparr>numDSB := numDSB cluster1 + 1\<rparr>, s\<lparr>fTotalDSB := fTotalDSB s - 1\<rparr>)
         else Inl (UnrecognizedDamageLabel damageType))"

text \<open>
  \<open>RecordCluster\<close> appends the cluster's details to the vectors of its kind, counts it, and
  resets the cluster.  C++ integer division truncates towards zero (\<open>sdiv\<close>).
\<close>

definition RecordCluster :: "DamageCluster \<Rightarrow> scorer \<Rightarrow> DamageCluster \<times> scorer" where
  "RecordCluster cluster s =
     (if numDSB cluster > 0 then
        (let cluster1 = cluster\<lparr>numDSB := numDSB cluster sdiv 2\<rparr>
         in (DamageCluster0,
             s\<lparr>fComplexDSBSizes := fComplexDSBSizes s @ [end_bp cluster1 - start cluster1 + 1],
               fComplexDSBNumSSB := fComplexDSBNumSSB s @ [numSSB cluster1],
               fComplexDSBNumBD := fComplexDSBNumBD s @ [numBD cluster1],
               fComplexDSBNumDSB := fComplexDSBNumDSB s @ [numDSB cluster1],
               fComplexDSBNumDamage := fComplexDSBNumDamage s
                  @ [numSSB cluster1 + numBD cluster1 + numDSB cluster1],
               fTotalComplexDSB := fTotalComplexDSB s + 1\<rparr>))
      else
        (DamageCluster0,
         s\<lparr>fNonDSBClusterSizes := fNonDSBClusterSizes s @ [end_bp cluster - start cluster + 1],
           fNonDSBClusterNumSSB := fNonDSBClusterNumSSB s @ [numSSB cluster],
           fNonDSBClusterNumBD := fNonDSBClusterNumBD s @ [numBD cluster],
           fNonDSBClusterNumDamage := fNonDSBClusterNumDamage s @ [numSSB cluster + numBD cluster],
           fTotalNonDSBCluster := fTotalNonDSBCluster s + 1\<rparr>))"

text \<open>
  The \<open>while\<close> loop of \<open>RecordClusteredDamage\<close>: \<open>sitePrev\<close> is the entry before the
  iterator, the list is what the iterator still has to visit.  The loop state is the local
  cluster, the two flags and the scorer.
\<close>

fun RecordClusteredDamage_loop ::
  "int \<times> int \<Rightarrow> (int \<times> int) list \<Rightarrow> DamageCluster \<Rightarrow> bool \<Rightarrow> bool \<Rightarrow> scorer
     \<Rightarrow> error + DamageCluster \<times> bool \<times> bool \<times> scorer" where
  "RecordClusteredDamage_loop sitePrev [] cluster newCluster buildingCluster s =
     Inr (cluster, newCluster, buildingCluster, s)"
| "RecordClusteredDamage_loop sitePrev (siteCur # rest) cluster newCluster buildingCluster s =
     (if fst siteCur - fst sitePrev \<le> fThresDistForCluster s then
        (if newCluster then
           (case AddDamageToCluster cluster (fst sitePrev) (snd sitePrev) newCluster s of
              Inl e \<Rightarrow> Inl e
            | Inr (cluster1, s1) \<Rightarrow>
                (case AddDamageToCluster cluster1 (fst siteCur) (snd siteCur) False s1 of
                   Inl e \<Rightarrow> Inl e
                 | Inr (cluster2, s2) \<Rightarrow>
                     RecordClusteredDamage_loop siteCur rest cluster2 False True s2))
         else
           (case AddDamageToCluster cluster (fst siteCur) (snd siteCur) newCluster s of
              Inl e \<Rightarrow> Inl e
            | Inr (cluster1, s1) \<Rightarrow>
                RecordClusteredDamage_loop siteCur rest cluster1 newCluster buildingCluster s1))
      else if buildingCluster then
        (case RecordCluster cluster s of
           (cluster1, s1) \<Rightarrow> RecordClusteredDamage_loop siteCur rest cluster1 True False s1)
      else RecordClusteredDamage_loop siteCur rest cluster newCluster buildingCluster s)"

text \<open>
  \<open>RecordClusteredDamage_scan\<close> is \<open>RecordClusteredDamage\<close> from the start of the loop to
  the recording of a cluster still open at the end of the list, that is all of it but the
  early return and the final division of \<open>fTotalDSB\<close> by two.
\<close>

definition RecordClusteredDamage_scan :: "scorer \<Rightarrow> error + scorer" where
  "RecordClusteredDamage_scan s =
     (case RecordClusteredDamage_loop (hd (fIndicesSimple s)) (tl (fIndicesSimple s))
             DamageCluster0 True False s of
        Inl e \<Rightarrow> Inl e
      | Inr (cluster, newCluster, buildingCluster, s1) \<Rightarrow>
          Inr (if buildingCluster then snd (RecordCluster cluster s1) else s1))"

definition RecordClusteredDamage :: "scorer \<Rightarrow> error + scorer" where
  "RecordClusteredDamage s =
     (if length (fIndicesSimple s) < 2 then Inr s
      else case RecordClusteredDamage_scan s of
             Inl e \<Rightarrow> Inl e
           | Inr s1 \<Rightarrow> Inr (s1\<lparr>fTotalDSB := fTotalDSB s1 sdiv 2\<rparr>))"

subsection \<open>Energy accumulation: \<open>ProcessHits\<close>\<close>

text \<open>
  What \<open>ProcessHits\<close> reads from the step: the energy deposit, the copy number of the
  volume, the copy number of the parent (fibre) volume, and the split-track id of the
  track information (read only when \<open>fNbOfAlgo > 1\<close>).
\<close>

record hit =
  hit_edep :: real
  hit_volID :: int
  hit_parentDepth :: int
  hit_splitTrackID :: int

text \<open>\<open>m[parentDepth][i][num_nucleotide] += edep\<close> on a three-level map.\<close>

definition deposit :: "int \<Rightarrow> int \<Rightarrow> int \<Rightarrow> real \<Rightarrow> fibre_map \<Rightarrow> fibre_map" where
  "deposit parentDepth i num_nucleotide edep m =
     cmap_upd [] (cmap_upd [] (cmap_upd 0 (\<lambda>e. e + edep) num_nucleotide) i) parentDepth m"

definition ProcessHits :: "hit \<Rightarrow> scorer \<Rightarrow> bool \<times> scorer" where
  "ProcessHits h s =
     (if \<not> fIsActive s then (False, s\<lparr>fSkippedWhileInactive := fSkippedWhileInactive s + 1\<rparr>)
      else if hit_edep h > 0 then
        (let edep = hit_edep h;
             volID = hit_volID h;
             num_strand = volID sdiv 1000000;
             num_res = (volID - num_strand * 1000000) sdiv 100000;
             num_nucleotide = volID - num_strand * 1000000 - num_res * 100000
         in if num_strand = 0 \<or> num_strand = 1 then
              (let parentDepth = hit_parentDepth h;
                   index = (if fNbOfAlgo s > 1 then hit_splitTrackID h else 1);
                   splits = map int [0..<nat (fNbOfAlgo s)]
               in if index > 2 then
                    (if num_strand = 0
                     then (True, s\<lparr>fGenVEdepStrand1Backbone :=
                             deposit parentDepth (index - 3) num_nucleotide edep (fGenVEdepStrand1Backbone s)\<rparr>)
                     else (True, s\<lparr>fGenVEdepStrand2Backbone :=
                             deposit parentDepth (index - 3) num_nucleotide edep (fGenVEdepStrand2Backbone s)\<rparr>))
                  else if num_strand = 0 then
                    (if num_res = 0 \<or> num_res = 1
                     then (True, s\<lparr>fGenVEdepStrand1Backbone :=
                             fold (\<lambda>i. deposit parentDepth i num_nucleotide edep) splits (fGenVEdepStrand1Backbone s)\<rparr>)
                     else if num_res = 2
                     then (True, s\<lparr>fGenVEdepStrand1Base :=
                             fold (\<lambda>i. deposit parentDepth i num_nucleotide edep) splits (fGenVEdepStrand1Base s)\<rparr>)
                     else (True, s))
                  else
                    (if num_res = 0 \<or> num_res = 1
                     then (True, s\<lparr>fGenVEdepStrand2Backbone :=
                             fold (\<lambda>i. deposit parentDepth i num_nucleotide edep) splits (fGenVEdepStrand2Backbone s)\<rparr>)
                     else if num_res = 2
                     then (True, s\<lparr>fGenVEdepStrand2Base :=
                             fold (\<lambda>i. deposit parentDepth i num_nucleotide edep) splits (fGenVEdepStrand2Base s)\<rparr>)
                     else (True, s)))
            else (False, s))
      else (False, s))"

subsection \<open>The end-of-event pass: \<open>UserHookForEndOfEvent\<close>\<close>

text \<open>The four extraction calls at the head of the split loop's body.\<close>

definition EndOfEvent_extract :: "scorer \<Rightarrow> scorer" where
  "EndOfEvent_extract s =
     s\<lparr>fIndicesSSB1 := RecordSimpleDamage (fThresEdepForSSB s) (fVEdepStrand1Backbone s),
       fIndicesSSB2 := RecordSimpleDamage (fThresEdepForSSB s) (fVEdepStrand2Backbone s),
       fIndicesBD1 := RecordSimpleDamage (fThresEdepForBD s) (fVEdepStrand1Base s),
       fIndicesBD2 := RecordSimpleDamage (fThresEdepForBD s) (fVEdepStrand2Base s)\<rparr>"

text \<open>The body of the split loop up to and including \<open>CombineSimpleDamage\<close>.\<close>

definition EndOfEvent_prepare :: "scorer \<Rightarrow> scorer" where
  "EndOfEvent_prepare s =
     (let s1 = EndOfEvent_extract s;
          s2 = (case RecordDSB1D s1 of (indicesDSB1D, s') \<Rightarrow> s'\<lparr>fIndicesDSB1D := indicesDSB1D\<rparr>);
          s3 = s2\<lparr>fTotalSSB := fTotalSSB s2 + (int (length (fIndicesSSB1 s2)) + int (length (fIndicesSSB2 s2))),
                  fTotalBD := fTotalBD s2 + (int (length (fIndicesBD1 s2)) + int (length (fIndicesBD2 s2))),
                  fTotalDSB := fTotalDSB s2 + int (length (fIndicesDSB1D s2))\<rparr>
      in s3\<lparr>fIndicesSimple := CombineSimpleDamage s3\<rparr>)"

text \<open>The conditional \<open>fNtuple->Fill()\<close>: a row of the registered columns as they stand.\<close>

definition EndOfEvent_fill :: "scorer \<Rightarrow> scorer" where
  "EndOfEvent_fill s =
     (if fTotalSSB s > 0 \<or> fTotalBD s > 0 \<or> fTotalDSB s > 0 \<or> fTotalComplexDSB s > 0
         \<or> fTotalNonDSBCluster s > 0
      then s\<lparr>fNtuple := fNtuple s @
             [\<lparr>col_EventID = fEventID s, col_SSB = fTotalSSB s, col_DSB = fTotalDSB s,
               col_BD = fTotalBD s, col_ComplexDSB = fTotalComplexDSB s,
               col_NonDSBCluster = fTotalNonDSBCluster s\<rparr>]\<rparr>
      else s)"

definition EndOfEvent_split :: "scorer \<Rightarrow> error + scorer" where
  "EndOfEvent_split s =
     (case RecordClusteredDamage (EndOfEvent_prepare s) of
        Inl e \<Rightarrow> Inl e
      | Inr s1 \<Rightarrow> Inr (EndOfEvent_fill s1))"

text \<open>
  The split loop \<open>for (int i = 0; i < fNbOfAlgo; i++)\<close>; its body does not use \<open>i\<close>, so the
  loop is given by the number of iterations still to run.
\<close>

fun EndOfEvent_splits :: "nat \<Rightarrow> scorer \<Rightarrow> error + scorer" where
  "EndOfEvent_splits 0 s = Inr s"
| "EndOfEvent_splits (Suc n) s =
     (case EndOfEvent_split s of Inl e \<Rightarrow> Inl e | Inr s1 \<Rightarrow> EndOfEvent_splits n s1)"

text \<open>
  The body of the fibre loop.  The fibre's key exists in \<open>fGenVEdepStrand1Backbone\<close> (the
  loop iterates over that map); indexing the other three maps inserts an empty entry for a
  fibre they do not have.  After the split loop only the two backbone working maps are
  erased.
\<close>

definition EndOfEvent_fibre :: "int \<Rightarrow> scorer \<Rightarrow> error + scorer" where
  "EndOfEvent_fibre parentDepth s =
     (let s1 = s\<lparr>fVEdepStrand1Backbone := cmap_at [] (fGenVEdepStrand1Backbone s) parentDepth,
                 fVEdepStrand2Backbone := cmap_at [] (fGenVEdepStrand2Backbone s) parentDepth,
                 fGenVEdepStrand2Backbone := cmap_upd [] id parentDepth (fGenVEdepStrand2Backbone s),
                 fVEdepStrand1Base := cmap_at [] (fGenVEdepStrand1Base s) parentDepth,
                 fGenVEdepStrand1Base := cmap_upd [] id parentDepth (fGenVEdepStrand1Base s),
                 fVEdepStrand2Base := cmap_at [] (fGenVEdepStrand2Base s) parentDepth,
                 fGenVEdepStrand2Base := cmap_upd [] id parentDepth (fGenVEdepStrand2Base s),
                 fDNAParent := parentDepth\<rparr>
      in case EndOfEvent_splits (nat (fNbOfAlgo s1)) s1 of
           Inl e \<Rightarrow> Inl e
         | Inr s2 \<Rightarrow> Inr (s2\<lparr>fVEdepStrand1Backbone := [], fVEdepStrand2Backbone := []\<rparr>))"

fun EndOfEvent_fibres :: "int list \<Rightarrow> scorer \<Rightarrow> error + scorer" where
  "EndOfEvent_fibres [] s = Inr s"
| "EndOfEvent_fibres (parentDepth # fibres) s =
     (case EndOfEvent_fibre parentDepth s of
        Inl e \<Rightarrow> Inl e
      | Inr s1 \<Rightarrow> EndOfEvent_fibres fibres s1)"

text \<open>
  \<open>UserHookForEndOfEvent\<close>; the event id comes from the framework (\<open>GetEventID()\<close>).  The
  fibre loop runs over the keys of \<open>fGenVEdepStrand1Backbone\<close>; after it the two backbone
  maps are erased.
\<close>

definition UserHookForEndOfEvent :: "int \<Rightarrow> scorer \<Rightarrow> error + scorer" where
  "UserHookForEndOfEvent eventID s =
     (let s0 = s\<lparr>fEventID := eventID\<rparr>
      in case EndOfEvent_fibres (map fst (fGenVEdepStrand1Backbone s0)) s0 of
           Inl e \<Rightarrow> Inl e
         | Inr s1 \<Rightarrow> Inr (s1\<lparr>fGenVEdepStrand1Backbone := [], fGenVEdepStrand2Backbone := []\<rparr>))"

subsection \<open>The constructor\<close>

text \<open>
  The parameter manager of the framework, seen through the calls the constructor makes:
  a parameter is absent or has an integer or a dimensioned value.  Names are relative to
  the scorer (\<open>GetFullParmName\<close>).  Asking for the value of an absent parameter ends the
  run with an error.  Energies are held in the framework's internal unit, in which \<open>eV\<close> is
  \<open>1e-6\<close>.
\<close>

datatype parameter = IntegerParameter int | DoubleParameter real

type_synonym TsParameterManager = "string \<Rightarrow> parameter option"

definition ParameterExists :: "TsParameterManager \<Rightarrow> string \<Rightarrow> bool" where
  "ParameterExists fPm name = (fPm name \<noteq> None)"

definition GetIntegerParameter :: "TsParameterManager \<Rightarrow> string \<Rightarrow> error + int" where
  "GetIntegerParameter fPm name =
     (case fPm name of Some (IntegerParameter i) \<Rightarrow> Inr i | _ \<Rightarrow> Inl (ParameterNotFound name))"

definition GetDoubleParameter :: "TsParameterManager \<Rightarrow> string \<Rightarrow> error + real" where
  "GetDoubleParameter fPm name =
     (case fPm name of Some (DoubleParameter x) \<Rightarrow> Inr x | _ \<Rightarrow> Inl (ParameterNotFound name))"

definition eV :: real where
  "eV = 1 / 1000000"

text \<open>
  The members as the constructor initialises them before it looks at any parameter.  The
  three damage-type tags come from the class header and are arguments here; the maps and
  vectors start empty and the scorer is active.
\<close>

definition default_members :: "int \<Rightarrow> int \<Rightarrow> int \<Rightarrow> scorer" where
  "default_members idSSB idBD idDSB =
     \<lparr>fThresDistForDSB = 10,
      fThresEdepForSSB = 17.5 * eV,
      fThresEdepForBD = 17.5 * eV,
      fThresDistForCluster = 40,
      fNbOfAlgo = 1,
      fIdSSB = idSSB, fIdBD = idBD, fIdDSB = idDSB,
      fIsActive = True, fSkippedWhileInactive = 0,
      fEventID = 0, fDNAParent = 0,
      fTotalSSB = 0, fTotalBD = 0, fTotalDSB = 0,
      fTotalComplexDSB = 0, fTotalNonDSBCluster = 0,
      fGenVEdepStrand1Backbone = [], fGenVEdepStrand2Backbone = [],
      fGenVEdepStrand1Base = [], fGenVEdepStrand2Base = [],
      fVEdepStrand1Backbone = [], fVEdepStrand2Backbone = [],
      fVEdepStrand1Base = [], fVEdepStrand2Base = [],
      fIndicesSSB1 = [], fIndicesSSB2 = [], fIndicesBD1 = [], fIndicesBD2 = [],
      fIndicesDSB1D = [], fIndicesSimple = [],
      fComplexDSBSizes = [], fComplexDSBNumSSB = [], fComplexDSBNumBD = [],
      fComplexDSBNumDSB = [], fComplexDSBNumDamage = [],
      fNonDSBClusterSizes = [], fNonDSBClusterNumSSB = [], fNonDSBClusterNumBD = [],
      fNonDSBClusterNumDamage = [],
      fNtuple = []\<rparr>"

text \<open>
  The constructor, as far as the members of \<open>scorer\<close> go: the defaults, then the parameters
  that override them, in the order of the source.  Each \<open>if (ParameterExists(..))\<close> assigns
  the value of the parameter it asks for to the member on its left-hand side.
\<close>

definition ScoreClusteredDNADamage ::
  "TsParameterManager \<Rightarrow> int \<Rightarrow> int \<Rightarrow> int \<Rightarrow> error + scorer" where
  "ScoreClusteredDNADamage fPm idSSB idBD idDSB =
     (let s0 = default_members idSSB idBD idDSB in
      case (if ParameterExists fPm ''BasePairDistanceForDefiningDSB''
            then map_sum id (\<lambda>v. s0\<lparr>fThresDistForDSB := v\<rparr>)
                   (GetIntegerParameter fPm ''BasePairDistanceForDefiningDSB'')
            else Inr s0) of
        Inl e \<Rightarrow> Inl e
      | Inr s1 \<Rightarrow>
     (case (if ParameterExists fPm ''EnergyThresholdForHavingSSB''
            then map_sum id (\<lambda>v. s1\<lparr>fThresEdepForSSB := v\<rparr>)
                   (GetDoubleParameter fPm ''EnergyThresholdForHavingSSB'')
            else Inr s1) of
        Inl e \<Rightarrow> Inl e
      | Inr s2 \<Rightarrow>
     (case (if ParameterExists fPm ''EnergyThresholdForHavingBD''
            then map_sum id (\<lambda>v. s2\<lparr>fThresEdepForSSB := v\<rparr>)
                   (GetDoubleParameter fPm ''EnergyThresholdToInduceBD'')
            else Inr s2) of
        Inl e \<Rightarrow> Inl e
      | Inr s3 \<Rightarrow>
          (if ParameterExists fPm ''NumberOfSplit''
           then map_sum id (\<lambda>v. s3\<lparr>fNbOfAlgo := v\<rparr>) (GetIntegerParameter fPm ''NumberOfSplit'')
           else Inr s3))))"

subsection \<open>Running hits and events\<close>

text \<open>All hits of one event, then the end-of-event hook.\<close>

definition run_event :: "int \<Rightarrow> hit list \<Rightarrow> scorer \<Rightarrow> error + scorer" where
  "run_event eventID hits s =
     UserHookForEndOfEvent eventID (fold (\<lambda>h s'. snd (ProcessHits h s')) hits s)"

subsection \<open>Notions used to state the properties\<close>

text \<open>Sequencing of steps that may end the run, and a hit that deposits \<open>20 eV\<close>.\<close>

definition and_then :: "error + scorer \<Rightarrow> (scorer \<Rightarrow> error + scorer) \<Rightarrow> error + scorer" where
  "and_then r f = (case r of Inl e \<Rightarrow> Inl e | Inr s \<Rightarrow> f s)"

definition hit_20eV :: "int \<Rightarrow> int \<Rightarrow> hit" where
  "hit_20eV volID parentDepth =
     \<lparr>hit_edep = 20 * eV, hit_volID = volID, hit_parentDepth = parentDepth, hit_splitTrackID = 0\<rparr>"

text \<open>
  What the clustering pass and the filling of the ntuple leave as they are: the
  configuration and the four working energy maps.
\<close>

definition static_of ::
  "scorer \<Rightarrow> (int \<times> real \<times> real \<times> int \<times> int \<times> int \<times> int \<times> int)
             \<times> (split_map \<times> split_map \<times> split_map \<times> split_map)" where
  "static_of s =
     ((fThresDistForDSB s, fThresEdepForSSB s, fThresEdepForBD s, fThresDistForCluster s,
       fNbOfAlgo s, fIdSSB s, fIdBD s, fIdDSB s),
      (fVEdepStrand1Backbone s, fVEdepStrand2Backbone s, fVEdepStrand1Base s, fVEdepStrand2Base s))"




text \<open>The SSB, BD and DSB counts recorded for clusters so far (both kinds of cluster).\<close>

definition recordedSSB :: "scorer \<Rightarrow> int" where
  "recordedSSB s = sum_list (fComplexDSBNumSSB s) + sum_list (fNonDSBClusterNumSSB s)"

definition recordedBD :: "scorer \<Rightarrow> int" where
  "recordedBD s = sum_list (fComplexDSBNumBD s) + sum_list (fNonDSBClusterNumBD s)"

definition recordedDSB :: "scorer \<Rightarrow> int" where
  "recordedDSB s = sum_list (fComplexDSBNumDSB s)"







definition example_two_splits :: scorer where
  "example_two_splits =
     (default_members 0 1 2)
       \<lparr>fNbOfAlgo := 2,
        fVEdepStrand1Backbone :=
          [(0, [(3, 20 * eV), (5, 10 * eV), (9, 18 * eV)]), (1, [(4, 20 * eV)])]\<rparr>"

text \<open>
  The reading of the final halving that has it applied once per event: the passes of all
  fibres and split copies leave \<open>fTotalDSB\<close> undivided, and the division by two follows the
  fibre loop.  These functions differ from the ones above in this only.
\<close>

definition HalvingOnce_split :: "scorer \<Rightarrow> error + scorer" where
  "HalvingOnce_split s =
     (let s0 = EndOfEvent_prepare s
      in case (if length (fIndicesSimple s0) < 2 then Inr s0 else RecordClusteredDamage_scan s0) of
           Inl e \<Rightarrow> Inl e
         | Inr s1 \<Rightarrow> Inr s1)"

fun HalvingOnce_splits :: "nat \<Rightarrow> scorer \<Rightarrow> error + scorer" where
  "HalvingOnce_splits 0 s = Inr s"
| "HalvingOnce_splits (Suc n) s =
     (case HalvingOnce_split s of Inl e \<Rightarrow> Inl e | Inr s1 \<Rightarrow> HalvingOnce_splits n s1)"

definition HalvingOnce_fibre :: "int \<Rightarrow> scorer \<Rightarrow> error + scorer" where
  "HalvingOnce_fibre parentDepth s =
     (let s1 = s\<lparr>fVEdepStrand1Backbone := cmap_at [] (fGenVEdepStrand1Backbone s) parentDepth,
                 fVEdepStrand2Backbone := cmap_at [] (fGenVEdepStrand2Backbone s) parentDepth,
                 fGenVEdepStrand2Backbone := cmap_upd [] id parentDepth (fGenVEdepStrand2Backbone s),
                 fVEdepStrand1Base := cmap_at [] (fGenVEdepStrand1Base s) parentDepth,
                 fGenVEdepStrand1Base := cmap_upd [] id parentDepth (fGenVEdepStrand1Base s),
                 fVEdepStrand2Base := cmap_at [] (fGenVEdepStrand2Base s) parentDepth,
                 fGenVEdepStrand2Base := cmap_upd [] id parentDepth (fGenVEdepStrand2Base s),
                 fDNAParent := parentDepth\<rparr>
      in case HalvingOnce_splits (nat (fNbOfAlgo s1)) s1 of
           Inl e \<Rightarrow> Inl e
         | Inr s2 \<Rightarrow> Inr (s2\<lparr>fVEdepStrand1Backbone := [], fVEdepStrand2Backbone := []\<rparr>))"

fun HalvingOnce_fibres :: "int list \<Rightarrow> scorer \<Rightarrow> error + scorer" where
  "HalvingOnce_fibres [] s = Inr s"
| "HalvingOnce_fibres (parentDepth # fibres) s =
     (case HalvingOnce_fibre parentDepth s of
        Inl e \<Rightarrow> Inl e
      | Inr s1 \<Rightarrow> HalvingOnce_fibres fibres s1)"

definition HalvingOnce_event :: "int \<Rightarrow> hit list \<Rightarrow> scorer \<Rightarrow> error + scorer" where
  "HalvingOnce_event eventID hits s =
     (let s0 = (fold (\<lambda>h s'. snd (ProcessHits h s')) hits s)\<lparr>fEventID := eventID\<rparr>
      in case HalvingOnce_fibres (map fst (fGenVEdepStrand1Backbone s0)) s0 of
           Inl e \<Rightarrow> Inl e
         | Inr s1 \<Rightarrow> Inr (s1\<lparr>fTotalDSB := fTotalDSB s1 sdiv 2,
                              fGenVEdepStrand1Backbone := [], fGenVEdepStrand2Backbone := []\<rparr>))"

section \<open>Properties\<close>

text \<open>The definitions a concrete run unfolds to.\<close>

lemmas run_defs = and_then_def hit_20eV_def default_members_def ScoreClusteredDNADamage_def ParameterExists_def
  GetIntegerParameter_def GetDoubleParameter_def eV_def run_event_def ProcessHits_def deposit_def
  UserHookForEndOfEvent_def EndOfEvent_fibre_def EndOfEvent_split_def EndOfEvent_prepare_def
  EndOfEvent_extract_def EndOfEvent_fill_def RecordSimpleDamage_def RecordDSB1D_def RecordDSB1D_lists_def
  CombineSimpleDamage_def CombineSimpleDamage_lists_def RecordClusteredDamage_def RecordClusteredDamage_scan_def
  RecordCluster_def AddDamageToCluster_def DamageCluster0_def signed_divide_int_def
  HalvingOnce_event_def HalvingOnce_fibre_def HalvingOnce_split_def

subsection \<open>DSB pairing\<close>

text \<open>
  C6 (as the code behaves).  For strand-1 SSB sites \<open>0,3,5,9\<close>, strand-2 SSB sites \<open>2,8\<close>
  and DSB distance threshold \<open>1\<close>, the pairing engine pairs \<open>3\<close> with \<open>2\<close> and \<open>9\<close> with
  \<open>8\<close> (each at distance \<open>1 \<le> 1\<close>): it returns the two DSBs \<open>[2,3,8,9]\<close> and leaves the
  strand-1 list as \<open>[0,5]\<close> and the strand-2 list empty.
\<close>

theorem C6_scenario_two_DSBs:
  "RecordDSB1D_lists 1 [0, 3, 5, 9] [2, 8] = ([2, 3, 8, 9], [0, 5], [])"
  by (simp add: RecordDSB1D_lists_def)

text \<open>
  C6 as stated fails: on that input the engine does not return zero DSBs with both input
  lists intact.
\<close>

theorem C6_no_DSB_counterexample:
  "RecordDSB1D_lists 1 [0, 3, 5, 9] [2, 8] \<noteq> ([], [0, 3, 5, 9], [2, 8])"
  by (simp add: RecordDSB1D_lists_def)

text \<open>
  C7 (the code on two ascending lists).  With DSB distance \<open>2\<close>, strand-1 sites \<open>1,2\<close> and
  strand-2 sites \<open>3,4\<close> the pairing engine pairs \<open>1\<close> with \<open>3\<close> and \<open>2\<close> with \<open>4\<close> and
  returns \<open>[1,3,2,4]\<close>, which is not in non-decreasing order.  In a pass of a scorer built
  with no parameters, backbone hits at these four positions leave that DSB list and the
  combined sequence \<open>[(1,DSB),(3,DSB),(2,DSB),(4,DSB)]\<close>, which is not ascending.  With DSB
  distance \<open>100\<close> and backbone hits at bp \<open>1,2\<close> of strand 1 and bp \<open>30,100\<close> of strand 2
  the DSB list is \<open>[1,30,2,100]\<close>; the cluster of the entries at bp \<open>1\<close>, \<open>30\<close> and \<open>2\<close> is
  recorded with size \<open>2\<close> and one DSB, and the DSB total ends at \<open>0\<close>, for two DSBs.
\<close>

theorem C7_flat_list_unsorted:
  "sorted [1, 2 :: int] \<and> sorted [3, 4 :: int] \<and> (0::int) \<le> 2
   \<and> fst (RecordDSB1D_lists 2 [1, 2] [3, 4]) = [1, 3, 2, 4]
   \<and> \<not> sorted (fst (RecordDSB1D_lists 2 [1, 2] [3, 4]))
   \<and> map_sum id fIndicesDSB1D
       (and_then (ScoreClusteredDNADamage Map.empty 0 1 2)
          (run_event 1 [hit_20eV 1 0, hit_20eV 2 0, hit_20eV 1000003 0, hit_20eV 1000004 0]))
       = Inr [1, 3, 2, 4]
   \<and> map_sum id fIndicesSimple
       (and_then (ScoreClusteredDNADamage Map.empty 0 1 2)
          (run_event 1 [hit_20eV 1 0, hit_20eV 2 0, hit_20eV 1000003 0, hit_20eV 1000004 0]))
       = Inr [(1, 2), (3, 2), (2, 2), (4, 2)]
   \<and> map_sum id fIndicesSimple
       (and_then (ScoreClusteredDNADamage
                    (Map.empty(''BasePairDistanceForDefiningDSB'' \<mapsto> IntegerParameter 100)) 0 1 2)
          (run_event 1 [hit_20eV 1 0, hit_20eV 2 0, hit_20eV 1000030 0, hit_20eV 1000100 0]))
       = Inr [(1, 2), (30, 2), (2, 2), (100, 2)]
   \<and> map_sum id fComplexDSBSizes
       (and_then (ScoreClusteredDNADamage
                    (Map.empty(''BasePairDistanceForDefiningDSB'' \<mapsto> IntegerParameter 100)) 0 1 2)
          (run_event 1 [hit_20eV 1 0, hit_20eV 2 0, hit_20eV 1000030 0, hit_20eV 1000100 0]))
       = Inr [2]
   \<and> map_sum id fComplexDSBNumDSB
       (and_then (ScoreClusteredDNADamage
                    (Map.empty(''BasePairDistanceForDefiningDSB'' \<mapsto> IntegerParameter 100)) 0 1 2)
          (run_event 1 [hit_20eV 1 0, hit_20eV 2 0, hit_20eV 1000030 0, hit_20eV 1000100 0]))
       = Inr [1]
   \<and> map_sum id fTotalDSB
       (and_then (ScoreClusteredDNADamage
                    (Map.empty(''BasePairDistanceForDefiningDSB'' \<mapsto> IntegerParameter 100)) 0 1 2)
          (run_event 1 [hit_20eV 1 0, hit_20eV 2 0, hit_20eV 1000030 0, hit_20eV 1000100 0]))
       = Inr 0"
  by (simp add: run_defs)

subsection \<open>Merging the damage lists\<close>

lemma stage_sorted:
  "sorted ds \<Longrightarrow> sorted (map fst (passed @ ahead)) \<Longrightarrow> \<forall>e\<in>set passed. \<forall>d\<in>set ds. fst e \<le> d
    \<Longrightarrow> sorted (map fst (CombineSimpleDamage_stage fId ds passed ahead))"
proof (induction fId ds passed ahead rule: CombineSimpleDamage_stage.induct)
  case (1 fId passed ahead)
  then show ?case by simp
next
  case (2 fId d ds passed)
  then show ?case by (auto simp: sorted_append comp_def)
next
  case (3 fId d ds passed s ahead)
  show ?case
  proof (cases "d < fst s")
    case True
    have "sorted (map fst (passed @ (d, fId) # s # ahead))"
      using 3(3,4,5) True by (auto simp: sorted_append)
    moreover have "sorted ds" using 3(3) by simp
    moreover have "\<forall>e\<in>set passed. \<forall>x\<in>set ds. fst e \<le> x" using 3(5) by simp
    ultimately show ?thesis using 3(1) True by simp
  next
    case False
    have "sorted (map fst ((passed @ [s]) @ ahead))" using 3(4) by simp
    moreover have "\<forall>e\<in>set (passed @ [s]). \<forall>x\<in>set (d # ds). fst e \<le> x"
      using 3(3,5) False by auto
    ultimately show ?thesis using 3(2,3) False by simp
  qed
qed

lemma stage_ties:
  "sorted ds \<Longrightarrow> sorted (map fst (passed @ ahead)) \<Longrightarrow> \<forall>e\<in>set passed. \<forall>d\<in>set ds. fst e \<le> d
    \<Longrightarrow> filter (\<lambda>e. fst e = k) (CombineSimpleDamage_stage fId ds passed ahead)
        = filter (\<lambda>e. fst e = k) (passed @ ahead) @ tagged_at k fId ds"
proof (induction fId ds passed ahead rule: CombineSimpleDamage_stage.induct)
  case (1 fId passed ahead)
  then show ?case by (simp add: tagged_at_def)
next
  case (2 fId d ds passed)
  then show ?case by (simp add: tagged_at_def filter_map comp_def)
next
  case (3 fId d ds passed s ahead)
  show ?case
  proof (cases "d < fst s")
    case True
    have srt: "sorted (map fst (passed @ (d, fId) # s # ahead))"
      using 3(3,4,5) True by (auto simp: sorted_append)
    have "sorted ds" using 3(3) by simp
    moreover have "\<forall>e\<in>set passed. \<forall>x\<in>set ds. fst e \<le> x" using 3(5) by simp
    ultimately have ih: "filter (\<lambda>e. fst e = k) (CombineSimpleDamage_stage fId ds passed ((d, fId) # s # ahead))
        = filter (\<lambda>e. fst e = k) (passed @ (d, fId) # s # ahead) @ tagged_at k fId ds"
      using 3(1) True srt by simp
    have gt: "\<forall>e\<in>set (s # ahead). d < fst e"
      using 3(4) True by (auto simp: sorted_append)
    have "k = d \<Longrightarrow> filter (\<lambda>e. fst e = k) (s # ahead) = []"
      using gt by (auto simp: filter_empty_conv)
    then show ?thesis using ih True by (auto simp: tagged_at_def)
  next
    case False
    have "sorted (map fst ((passed @ [s]) @ ahead))" using 3(4) by simp
    moreover have "\<forall>e\<in>set (passed @ [s]). \<forall>x\<in>set (d # ds). fst e \<le> x"
      using 3(3,5) False by auto
    ultimately show ?thesis using 3(2,3) False by simp
  qed
qed

text \<open>
  C9 (as the code behaves).  For five ascending source lists the combined sequence is
  ascending by bp index, and among the entries at one bp index \<open>k\<close> the order is the merge
  order: strand-1 SSBs, then strand-1 BDs, strand-2 SSBs, strand-2 BDs, then DSB entries.
  An entry from a later-merged list is placed after the equal-valued entries of the lists
  merged before it.
\<close>

theorem C9_merge_ascending_ties_after:
  assumes "sorted indicesSSB1" and "sorted indicesBD1" and "sorted indicesSSB2"
    and "sorted indicesBD2" and "sorted indicesDSB1D"
  shows "sorted (map fst (CombineSimpleDamage_lists idSSB idBD idDSB
            indicesSSB1 indicesBD1 indicesSSB2 indicesBD2 indicesDSB1D))
       \<and> (\<forall>k. filter (\<lambda>e. fst e = k) (CombineSimpleDamage_lists idSSB idBD idDSB
                  indicesSSB1 indicesBD1 indicesSSB2 indicesBD2 indicesDSB1D)
              = tagged_at k idSSB indicesSSB1 @ tagged_at k idBD indicesBD1
                @ tagged_at k idSSB indicesSSB2 @ tagged_at k idBD indicesBD2
                @ tagged_at k idDSB indicesDSB1D)"
proof -
  define s0 where "s0 = map (\<lambda>x. (x, idSSB)) indicesSSB1"
  define s1 where "s1 = CombineSimpleDamage_stage idBD indicesBD1 [] s0"
  define s2 where "s2 = CombineSimpleDamage_stage idSSB indicesSSB2 [] s1"
  define s3 where "s3 = CombineSimpleDamage_stage idBD indicesBD2 [] s2"
  define s4 where "s4 = CombineSimpleDamage_stage idDSB indicesDSB1D [] s3"
  have res: "CombineSimpleDamage_lists idSSB idBD idDSB
            indicesSSB1 indicesBD1 indicesSSB2 indicesBD2 indicesDSB1D = s4"
    by (simp add: CombineSimpleDamage_lists_def s0_def s1_def s2_def s3_def s4_def)
  have o0: "sorted (map fst s0)" using assms(1) by (simp add: s0_def comp_def)
  have o1: "sorted (map fst s1)" unfolding s1_def using stage_sorted [OF assms(2), of "[]" s0] o0 by simp
  have o2: "sorted (map fst s2)" unfolding s2_def using stage_sorted [OF assms(3), of "[]" s1] o1 by simp
  have o3: "sorted (map fst s3)" unfolding s3_def using stage_sorted [OF assms(4), of "[]" s2] o2 by simp
  have o4: "sorted (map fst s4)" unfolding s4_def using stage_sorted [OF assms(5), of "[]" s3] o3 by simp
  have t0: "filter (\<lambda>e. fst e = k) s0 = tagged_at k idSSB indicesSSB1" for k
    by (simp add: s0_def tagged_at_def filter_map comp_def)
  have t1: "filter (\<lambda>e. fst e = k) s1 = filter (\<lambda>e. fst e = k) s0 @ tagged_at k idBD indicesBD1" for k
    unfolding s1_def using stage_ties [OF assms(2), of "[]" s0 k idBD] o0 by simp
  have t2: "filter (\<lambda>e. fst e = k) s2 = filter (\<lambda>e. fst e = k) s1 @ tagged_at k idSSB indicesSSB2" for k
    unfolding s2_def using stage_ties [OF assms(3), of "[]" s1 k idSSB] o1 by simp
  have t3: "filter (\<lambda>e. fst e = k) s3 = filter (\<lambda>e. fst e = k) s2 @ tagged_at k idBD indicesBD2" for k
    unfolding s3_def using stage_ties [OF assms(4), of "[]" s2 k idBD] o2 by simp
  have t4: "filter (\<lambda>e. fst e = k) s4 = filter (\<lambda>e. fst e = k) s3 @ tagged_at k idDSB indicesDSB1D" for k
    unfolding s4_def using stage_ties [OF assms(5), of "[]" s3 k idDSB] o3 by simp
  show ?thesis unfolding res using o4 by (simp add: t0 t1 t2 t3 t4)
qed

theorem C9_merge_ascending_ties_after_witness:
  "sorted [3, 4, 5, 7, 9 :: int] \<and> sorted [1, 4, 7 :: int] \<and> sorted [1, 12 :: int]
   \<and> sorted [6, 7, 10, 12 :: int] \<and> sorted [3, 5, 11, 14 :: int]
   \<and> CombineSimpleDamage_lists 0 1 2 [3, 4, 5, 7, 9] [1, 4, 7] [1, 12] [6, 7, 10, 12] [3, 5, 11, 14]
       = [(1, 1), (1, 0), (3, 0), (3, 2), (4, 0), (4, 1), (5, 0), (5, 2), (6, 1),
          (7, 0), (7, 1), (7, 1), (9, 0), (10, 1), (11, 2), (12, 0), (12, 1), (14, 2)]
   \<and> sorted (map fst (CombineSimpleDamage_lists 0 1 2
         [3, 4, 5, 7, 9] [1, 4, 7] [1, 12] [6, 7, 10, 12] [3, 5, 11, 14]))
   \<and> filter (\<lambda>e. fst e = 7) (CombineSimpleDamage_lists 0 1 2
         [3, 4, 5, 7, 9] [1, 4, 7] [1, 12] [6, 7, 10, 12] [3, 5, 11, 14])
       = [(7, 0), (7, 1), (7, 1)]"
proof -
  have h: "sorted [3, 4, 5, 7, 9 :: int]" "sorted [1, 4, 7 :: int]" "sorted [1, 12 :: int]"
    "sorted [6, 7, 10, 12 :: int]" "sorted [3, 5, 11, 14 :: int]"
    by simp_all
  have v: "CombineSimpleDamage_lists 0 1 2 [3, 4, 5, 7, 9] [1, 4, 7] [1, 12] [6, 7, 10, 12] [3, 5, 11, 14]
       = [(1, 1), (1, 0), (3, 0), (3, 2), (4, 0), (4, 1), (5, 0), (5, 2), (6, 1),
          (7, 0), (7, 1), (7, 1), (9, 0), (10, 1), (11, 2), (12, 0), (12, 1), (14, 2)]"
    by (simp add: CombineSimpleDamage_lists_def)
  note c9 = C9_merge_ascending_ties_after [OF h, of 0 1 2]
  from c9 have o: "sorted (map fst (CombineSimpleDamage_lists 0 1 2
         [3, 4, 5, 7, 9] [1, 4, 7] [1, 12] [6, 7, 10, 12] [3, 5, 11, 14]))"
    by blast
  from c9 have "filter (\<lambda>e. fst e = 7) (CombineSimpleDamage_lists 0 1 2
         [3, 4, 5, 7, 9] [1, 4, 7] [1, 12] [6, 7, 10, 12] [3, 5, 11, 14])
       = tagged_at 7 0 [3, 4, 5, 7, 9] @ tagged_at 7 1 [1, 4, 7] @ tagged_at 7 0 [1, 12]
         @ tagged_at 7 1 [6, 7, 10, 12] @ tagged_at 7 2 [3, 5, 11, 14]"
    by blast
  then have t: "filter (\<lambda>e. fst e = 7) (CombineSimpleDamage_lists 0 1 2
         [3, 4, 5, 7, 9] [1, 4, 7] [1, 12] [6, 7, 10, 12] [3, 5, 11, 14])
       = [(7, 0), (7, 1), (7, 1)]"
    by (simp add: tagged_at_def)
  from h v o t show ?thesis by blast
qed

text \<open>
  C9 as stated fails in its tie rule: with a strand-1 SSB and a strand-1 BD both at bp index
  \<open>5\<close> (tags \<open>0\<close> for SSB, \<open>1\<close> for BD) the later-merged BD entry comes after the SSB entry,
  not before it.
\<close>

theorem C9_later_list_first_counterexample:
  "CombineSimpleDamage_lists 0 1 2 [5] [5] [] [] [] = [(5, 0), (5, 1)]
   \<and> CombineSimpleDamage_lists 0 1 2 [5] [5] [] [] [] \<noteq> [(5, 1), (5, 0)]"
  by (simp add: CombineSimpleDamage_lists_def)

subsection \<open>Clustering\<close>

lemma AddDamageToCluster_effect:
  assumes "AddDamageToCluster cluster site ty nc s = Inr (cluster', s')"
  shows "static_of s' = static_of s"
    and "fTotalSSB s' + numSSB cluster' = fTotalSSB s + numSSB cluster"
    and "fTotalBD s' + numBD cluster' = fTotalBD s + numBD cluster"
    and "fTotalDSB s' + numDSB cluster' = fTotalDSB s + numDSB cluster"
    and "recordedSSB s' = recordedSSB s" and "recordedBD s' = recordedBD s"
    and "recordedDSB s' = recordedDSB s"
    and "numDSB cluster \<le> numDSB cluster'"
    and "fIndicesSimple s' = fIndicesSimple s"
  using assms
  by (auto simp: AddDamageToCluster_def static_of_def recordedSSB_def recordedBD_def
      recordedDSB_def Let_def split: if_splits)


lemma RecordCluster_effect:
  assumes "RecordCluster cluster s = (cluster', s')"
  shows "static_of s' = static_of s"
    and "fTotalSSB s' = fTotalSSB s" and "fTotalBD s' = fTotalBD s" and "fTotalDSB s' = fTotalDSB s"
    and "recordedSSB s' = recordedSSB s + numSSB cluster"
    and "recordedBD s' = recordedBD s + numBD cluster"
    and "numSSB cluster' = 0" and "numBD cluster' = 0" and "numDSB cluster' = 0"
    and "fIndicesSimple s' = fIndicesSimple s"
  using assms
  by (auto simp: RecordCluster_def static_of_def recordedSSB_def recordedBD_def
      DamageCluster0_def Let_def split: if_splits)


lemma loop_conservation:
  "RecordClusteredDamage_loop p rest cl nc bc s = Inr (cl', nc', bc', s')
   \<Longrightarrow> bc = (\<not> nc) \<Longrightarrow> (nc \<longrightarrow> numSSB cl = 0 \<and> numBD cl = 0)
   \<Longrightarrow> static_of s' = static_of s
     \<and> fIndicesSimple s' = fIndicesSimple s
     \<and> bc' = (\<not> nc') \<and> (nc' \<longrightarrow> numSSB cl' = 0 \<and> numBD cl' = 0)
     \<and> fTotalSSB s' + numSSB cl' + recordedSSB s' = fTotalSSB s + numSSB cl + recordedSSB s
     \<and> fTotalBD s' + numBD cl' + recordedBD s' = fTotalBD s + numBD cl + recordedBD s"
proof (induction p rest cl nc bc s rule: RecordClusteredDamage_loop.induct)
  case (1 sitePrev cluster newCluster buildingCluster s)
  then show ?case by auto
next
  case (2 sitePrev siteCur rest cluster newCluster buildingCluster s)
  show ?case
  proof (cases "fst siteCur - fst sitePrev \<le> fThresDistForCluster s")
    case close: True
    show ?thesis
    proof (cases newCluster)
      case True
      from "2.prems"(1) close True obtain c1 s1 c2 s2 where
        a1: "AddDamageToCluster cluster (fst sitePrev) (snd sitePrev) newCluster s = Inr (c1, s1)"
        and a2: "AddDamageToCluster c1 (fst siteCur) (snd siteCur) False s1 = Inr (c2, s2)"
        and l: "RecordClusteredDamage_loop siteCur rest c2 False True s2 = Inr (cl', nc', bc', s')"
        by (auto split: sum.splits prod.splits)
      from "2.IH"(1) [OF close True a1 refl a2 refl l] "2.prems"(2,3) True
        AddDamageToCluster_effect [OF a1] AddDamageToCluster_effect [OF a2]
      show ?thesis by simp
    next
      case False
      from "2.prems"(1) close False obtain c1 s1 where
        a1: "AddDamageToCluster cluster (fst siteCur) (snd siteCur) newCluster s = Inr (c1, s1)"
        and l: "RecordClusteredDamage_loop siteCur rest c1 newCluster buildingCluster s1 = Inr (cl', nc', bc', s')"
        by (auto split: sum.splits prod.splits)
      from "2.IH"(2) [OF close False a1 refl l] "2.prems"(2,3) False
        AddDamageToCluster_effect [OF a1]
      show ?thesis by simp
    qed
  next
    case far: False
    show ?thesis
    proof (cases buildingCluster)
      case True
      obtain c1 s1 where r: "RecordCluster cluster s = (c1, s1)" by (cases "RecordCluster cluster s")
      with "2.prems"(1) far True have
        l: "RecordClusteredDamage_loop siteCur rest c1 True False s1 = Inr (cl', nc', bc', s')"
        by simp
      from "2.IH"(3) [OF far True r [symmetric] l] "2.prems"(2,3) True
        RecordCluster_effect [OF r]
      show ?thesis by simp
    next
      case False
      with "2.prems"(1) far have
        l: "RecordClusteredDamage_loop siteCur rest cluster newCluster buildingCluster s = Inr (cl', nc', bc', s')"
        by simp
      from "2.IH"(4) [OF far False l] "2.prems"(2,3) False show ?thesis by simp
    qed
  qed
qed

lemma static_ofD:
  assumes "static_of s' = static_of s"
  shows "fThresDistForDSB s' = fThresDistForDSB s" and "fThresEdepForSSB s' = fThresEdepForSSB s"
    and "fThresEdepForBD s' = fThresEdepForBD s" and "fThresDistForCluster s' = fThresDistForCluster s"
    and "fNbOfAlgo s' = fNbOfAlgo s" and "fIdSSB s' = fIdSSB s" and "fIdBD s' = fIdBD s"
    and "fIdDSB s' = fIdDSB s"
    and "fVEdepStrand1Backbone s' = fVEdepStrand1Backbone s"
    and "fVEdepStrand2Backbone s' = fVEdepStrand2Backbone s"
    and "fVEdepStrand1Base s' = fVEdepStrand1Base s"
    and "fVEdepStrand2Base s' = fVEdepStrand2Base s"
  using assms by (simp_all add: static_of_def)







lemma scan_conservation:
  assumes "RecordClusteredDamage_scan s = Inr s1"
  shows "static_of s1 = static_of s" and "fIndicesSimple s1 = fIndicesSimple s"
    and "fTotalSSB s1 + recordedSSB s1 = fTotalSSB s + recordedSSB s"
    and "fTotalBD s1 + recordedBD s1 = fTotalBD s + recordedBD s"
proof -
  from assms obtain cl nc bc s0 where
    l: "RecordClusteredDamage_loop (hd (fIndicesSimple s)) (tl (fIndicesSimple s))
          DamageCluster0 True False s = Inr (cl, nc, bc, s0)"
    and s1: "s1 = (if bc then snd (RecordCluster cl s0) else s0)"
    by (auto simp: RecordClusteredDamage_scan_def split: sum.splits)
  have c: "static_of s0 = static_of s \<and> fIndicesSimple s0 = fIndicesSimple s
     \<and> bc = (\<not> nc) \<and> (nc \<longrightarrow> numSSB cl = 0 \<and> numBD cl = 0)
     \<and> fTotalSSB s0 + numSSB cl + recordedSSB s0 = fTotalSSB s + recordedSSB s
     \<and> fTotalBD s0 + numBD cl + recordedBD s0 = fTotalBD s + recordedBD s"
    using loop_conservation [OF l] by (simp add: DamageCluster0_def)
  obtain c1 s2 where r: "RecordCluster cl s0 = (c1, s2)" by (cases "RecordCluster cl s0")
  note e = RecordCluster_effect [OF r]
  show "static_of s1 = static_of s" using c s1 r e by (cases bc) auto
  show "fIndicesSimple s1 = fIndicesSimple s" using c s1 r e by (cases bc) auto
  show "fTotalSSB s1 + recordedSSB s1 = fTotalSSB s + recordedSSB s"
    using c s1 r e by (cases bc) auto
  show "fTotalBD s1 + recordedBD s1 = fTotalBD s + recordedBD s"
    using c s1 r e by (cases bc) auto
qed


lemma RecordClusteredDamage_static:
  assumes "RecordClusteredDamage s = Inr s'"
  shows "static_of s' = static_of s"
proof (cases "length (fIndicesSimple s) < 2")
  case True
  with assms show ?thesis by (simp add: RecordClusteredDamage_def)
next
  case False
  with assms obtain s1 where sc: "RecordClusteredDamage_scan s = Inr s1"
    and s': "s' = s1\<lparr>fTotalDSB := fTotalDSB s1 sdiv 2\<rparr>"
    by (auto simp: RecordClusteredDamage_def split: sum.splits)
  from scan_conservation(1) [OF sc] s' show ?thesis by (simp add: static_of_def)
qed















subsection \<open>The final halving\<close>

text \<open>
  C4 (the code on an event with two fibres).  A scorer built with DSB distance \<open>100\<close> sees
  one event that leaves one DSB (backbone deposits at bp \<open>0\<close> of strand 1 and bp \<open>50\<close> of
  strand 2, \<open>50\<close> apart and so outside the cluster distance \<open>40\<close>) in each of the fibres
  \<open>0\<close> and \<open>1\<close>.  The division by two sits at the end of \<open>RecordClusteredDamage\<close> and so
  runs in each fibre's pass, on a total that the passes add to: the rows show \<open>1\<close> after
  the first fibre and \<open>(1 + 2) / 2 = 1\<close> after the second, and the total ends at \<open>1\<close> for
  two DSBs; one division after both fibres gives \<open>(2 + 2) / 2 = 2\<close>.
\<close>

theorem C4_halving_in_each_fibre_pass:
  "map_sum id fTotalDSB
     (and_then (ScoreClusteredDNADamage
                  (Map.empty(''BasePairDistanceForDefiningDSB'' \<mapsto> IntegerParameter 100)) 0 1 2)
        (run_event 1 [hit_20eV 0 0, hit_20eV 1000050 0, hit_20eV 0 1, hit_20eV 1000050 1]))
     = Inr 1
   \<and> map_sum id (map col_DSB \<circ> fNtuple)
     (and_then (ScoreClusteredDNADamage
                  (Map.empty(''BasePairDistanceForDefiningDSB'' \<mapsto> IntegerParameter 100)) 0 1 2)
        (run_event 1 [hit_20eV 0 0, hit_20eV 1000050 0, hit_20eV 0 1, hit_20eV 1000050 1]))
     = Inr [1, 1]
   \<and> map_sum id fTotalDSB
     (and_then (ScoreClusteredDNADamage
                  (Map.empty(''BasePairDistanceForDefiningDSB'' \<mapsto> IntegerParameter 100)) 0 1 2)
        (HalvingOnce_event 1 [hit_20eV 0 0, hit_20eV 1000050 0, hit_20eV 0 1, hit_20eV 1000050 1]))
     = Inr 2"
  by (simp add: run_defs)

subsection \<open>Extraction\<close>

lemma RecordSimpleDamage_loop_eq:
  "RecordSimpleDamage_loop t inner acc = (acc @ map fst (filter (\<lambda>(k, e). t \<le> e) inner), [])"
  by (induction inner arbitrary: acc) auto

lemma RecordSimpleDamage_eq:
  "RecordSimpleDamage t m = map fst (filter (\<lambda>(k, e). t \<le> e) (cmap_at [] m 0))"
  by (simp add: RecordSimpleDamage_def RecordSimpleDamage_loop_eq)

lemma strict_sorted_keys_filter:
  "sorted_wrt (<) (map fst xs) \<Longrightarrow> sorted_wrt (<) (map fst (filter P xs))"
  by (induction xs) auto

lemma EndOfEvent_prepare_static: "static_of (EndOfEvent_prepare s) = static_of s"
  by (simp add: EndOfEvent_prepare_def EndOfEvent_extract_def RecordDSB1D_def static_of_def
      Let_def split: prod.splits)

lemma EndOfEvent_fill_static: "static_of (EndOfEvent_fill s) = static_of s"
  by (simp add: EndOfEvent_fill_def static_of_def)

lemma EndOfEvent_split_static:
  assumes "EndOfEvent_split s = Inr s'"
  shows "static_of s' = static_of s"
proof -
  from assms obtain s1 where r: "RecordClusteredDamage (EndOfEvent_prepare s) = Inr s1"
    and s': "s' = EndOfEvent_fill s1"
    by (auto simp: EndOfEvent_split_def split: sum.splits)
  from RecordClusteredDamage_static [OF r] s' show ?thesis
    by (simp add: EndOfEvent_fill_static EndOfEvent_prepare_static)
qed

lemma EndOfEvent_splits_static:
  "EndOfEvent_splits n s = Inr s' \<Longrightarrow> static_of s' = static_of s"
proof (induction n arbitrary: s)
  case 0
  then show ?case by simp
next
  case (Suc n)
  from Suc.prems obtain s1 where a: "EndOfEvent_split s = Inr s1"
    and b: "EndOfEvent_splits n s1 = Inr s'"
    by (auto split: sum.splits)
  from Suc.IH [OF b] EndOfEvent_split_static [OF a] show ?case by simp
qed

lemma EndOfEvent_extract_static:
  assumes "static_of s' = static_of s"
  shows "fIndicesSSB1 (EndOfEvent_extract s') = fIndicesSSB1 (EndOfEvent_extract s)"
    and "fIndicesSSB2 (EndOfEvent_extract s') = fIndicesSSB2 (EndOfEvent_extract s)"
    and "fIndicesBD1 (EndOfEvent_extract s') = fIndicesBD1 (EndOfEvent_extract s)"
    and "fIndicesBD2 (EndOfEvent_extract s') = fIndicesBD2 (EndOfEvent_extract s)"
  using static_ofD [OF assms] by (simp_all add: EndOfEvent_extract_def)

text \<open>
  C10.  \<open>RecordSimpleDamage\<close> returns exactly the keys of the entry under split key \<open>0\<close>
  whose energy reaches the threshold, in the order of the map; they are strictly ascending
  as the keys of the map are.  Two maps that agree under key \<open>0\<close> give the same result,
  whatever they hold under other keys.  The split loop leaves the working maps and the
  thresholds as they are, so after any number of its iterations the four extractions
  return the lists they returned in the first.
\<close>

theorem C10_extraction_reads_split_0:
  "RecordSimpleDamage t m = map fst (filter (\<lambda>(k, e). t \<le> e) (cmap_at [] m 0))
   \<and> (sorted_wrt (<) (map fst (cmap_at [] m 0)) \<longrightarrow> sorted_wrt (<) (RecordSimpleDamage t m))
   \<and> (cmap_at [] m 0 = cmap_at [] m' 0 \<longrightarrow> RecordSimpleDamage t m = RecordSimpleDamage t m')
   \<and> (EndOfEvent_splits n s = Inr s' \<longrightarrow>
        fIndicesSSB1 (EndOfEvent_extract s') = fIndicesSSB1 (EndOfEvent_extract s)
      \<and> fIndicesSSB2 (EndOfEvent_extract s') = fIndicesSSB2 (EndOfEvent_extract s)
      \<and> fIndicesBD1 (EndOfEvent_extract s') = fIndicesBD1 (EndOfEvent_extract s)
      \<and> fIndicesBD2 (EndOfEvent_extract s') = fIndicesBD2 (EndOfEvent_extract s))"
  using EndOfEvent_extract_static [OF EndOfEvent_splits_static, of n s s']
  by (simp add: RecordSimpleDamage_eq strict_sorted_keys_filter)

theorem C10_extraction_reads_split_0_witness:
  "sorted_wrt (<) (map fst (cmap_at [] (fVEdepStrand1Backbone example_two_splits) 0))
   \<and> cmap_at [] (fVEdepStrand1Backbone example_two_splits) 0
       = cmap_at [] [(0, [(3, 20 * eV), (5, 10 * eV), (9, 18 * eV)])] 0
   \<and> RecordSimpleDamage (17.5 * eV) (fVEdepStrand1Backbone example_two_splits) = [3, 9]
   \<and> RecordSimpleDamage (17.5 * eV) [(0, [(3, 20 * eV), (5, 10 * eV), (9, 18 * eV)])] = [3, 9]
   \<and> sorted_wrt (<) (RecordSimpleDamage (17.5 * eV) (fVEdepStrand1Backbone example_two_splits))
   \<and> (\<exists>s'. EndOfEvent_splits 2 example_two_splits = Inr s'
          \<and> fIndicesSSB1 (EndOfEvent_extract s') = [3, 9]
          \<and> fIndicesSSB1 (EndOfEvent_extract example_two_splits) = [3, 9])"
proof -
  have h1: "sorted_wrt (<) (map fst (cmap_at [] (fVEdepStrand1Backbone example_two_splits) 0))"
    by (simp add: example_two_splits_def)
  have h2: "cmap_at [] (fVEdepStrand1Backbone example_two_splits) 0
       = cmap_at [] [(0, [(3, 20 * eV), (5, 10 * eV), (9, 18 * eV)])] 0"
    by (simp add: example_two_splits_def)
  obtain s' where h3: "EndOfEvent_splits 2 example_two_splits = Inr s'"
    by (simp add: example_two_splits_def run_defs numeral_2_eq_2)
  have v: "RecordSimpleDamage (17.5 * eV) (fVEdepStrand1Backbone example_two_splits) = [3, 9]"
    by (simp add: example_two_splits_def RecordSimpleDamage_def eV_def)
  have e: "fIndicesSSB1 (EndOfEvent_extract example_two_splits) = [3, 9]"
    by (simp add: example_two_splits_def default_members_def EndOfEvent_extract_def
        RecordSimpleDamage_def eV_def)
  from C10_extraction_reads_split_0
    [of "17.5 * eV" "fVEdepStrand1Backbone example_two_splits"
        "[(0, [(3, 20 * eV), (5, 10 * eV), (9, 18 * eV)])]" 2 example_two_splits s']
    h1 h2 h3 v e
  show ?thesis by auto
qed

text \<open>
  C3 (the code on a one-entry map).  \<open>RecordSimpleDamage\<close> drains its own copy of the map
  only.  With the strand-1 backbone working map holding \<open>20 eV\<close> at bp \<open>5\<close> under split key
  \<open>0\<close>, the call returns \<open>[5]\<close> and its local copy ends with an empty entry for key \<open>0\<close>,
  but the caller's map after the extraction calls is what it was, and a second round of
  extraction returns \<open>[5]\<close> again.
\<close>

theorem C3_caller_map_not_drained:
  "RecordSimpleDamage (17.5 * eV) [(0, [(5, 20 * eV)])] = [5]
   \<and> RecordSimpleDamage_local (17.5 * eV) [(0, [(5, 20 * eV)])] = [(0, [])]
   \<and> fVEdepStrand1Backbone
        (EndOfEvent_extract ((default_members 0 1 2)\<lparr>fVEdepStrand1Backbone := [(0, [(5, 20 * eV)])]\<rparr>))
       = [(0, [(5, 20 * eV)])]
   \<and> fIndicesSSB1
        (EndOfEvent_extract (EndOfEvent_extract
           ((default_members 0 1 2)\<lparr>fVEdepStrand1Backbone := [(0, [(5, 20 * eV)])]\<rparr>)))
       = [5]"
  by (simp add: default_members_def EndOfEvent_extract_def RecordSimpleDamage_def
      RecordSimpleDamage_local_def eV_def)

subsection \<open>Events\<close>

text \<open>
  C1 (the code on two events).  A scorer built with no parameters sees two events, each
  with one hit of \<open>20 eV\<close> in the strand-1 backbone of fibre \<open>0\<close> (volume \<open>5\<close>, then volume
  \<open>7\<close>).  The SSB total stands at \<open>1\<close> when the second event's pass starts, the rows of the
  two events show \<open>1\<close> and \<open>2\<close> SSBs, and the second event alone gives a row with \<open>1\<close> SSB.
\<close>

theorem C1_tallies_carry_over:
  "map_sum id fTotalSSB
     (and_then (ScoreClusteredDNADamage Map.empty 0 1 2) (run_event 1 [hit_20eV 5 0])) = Inr 1
   \<and> map_sum id (map col_SSB \<circ> fNtuple)
     (and_then (and_then (ScoreClusteredDNADamage Map.empty 0 1 2) (run_event 1 [hit_20eV 5 0]))
        (run_event 2 [hit_20eV 7 0])) = Inr [1, 2]
   \<and> map_sum id (map col_SSB \<circ> fNtuple)
     (and_then (ScoreClusteredDNADamage Map.empty 0 1 2) (run_event 2 [hit_20eV 7 0])) = Inr [1]"
  by (simp add: run_defs)

text \<open>
  C2 (the code on one event).  A scorer built with no parameters sees an event with a hit
  of \<open>20 eV\<close> in the strand-1 backbone (volume \<open>5\<close>) and one in the strand-1 base (volume
  \<open>200005\<close>) at bp \<open>5\<close> of fibre \<open>0\<close>.  When the end-of-event pass completes, the two
  backbone maps are empty, but the strand-1 base map still holds the \<open>20 eV\<close> and the
  strand-2 base map holds an entry for the fibre; an event that follows with a single
  backbone hit (volume \<open>9\<close>) extracts the base damage at bp \<open>5\<close> again.
\<close>

theorem C2_base_maps_survive_event:
  "map_sum id fGenVEdepStrand1Backbone
     (and_then (ScoreClusteredDNADamage Map.empty 0 1 2)
        (run_event 1 [hit_20eV 5 0, hit_20eV 200005 0])) = Inr []
   \<and> map_sum id fGenVEdepStrand2Backbone
     (and_then (ScoreClusteredDNADamage Map.empty 0 1 2)
        (run_event 1 [hit_20eV 5 0, hit_20eV 200005 0])) = Inr []
   \<and> map_sum id fGenVEdepStrand1Base
     (and_then (ScoreClusteredDNADamage Map.empty 0 1 2)
        (run_event 1 [hit_20eV 5 0, hit_20eV 200005 0])) = Inr [(0, [(0, [(5, 20 * eV)])])]
   \<and> map_sum id fGenVEdepStrand2Base
     (and_then (ScoreClusteredDNADamage Map.empty 0 1 2)
        (run_event 1 [hit_20eV 5 0, hit_20eV 200005 0])) = Inr [(0, [])]
   \<and> map_sum id fIndicesBD1
     (and_then (and_then (ScoreClusteredDNADamage Map.empty 0 1 2)
        (run_event 1 [hit_20eV 5 0, hit_20eV 200005 0])) (run_event 2 [hit_20eV 9 0])) = Inr [5]"
  by (simp add: run_defs)

subsection \<open>Thresholds\<close>

text \<open>
  C5 (the code on a parameter file that sets both thresholds).  With
  \<open>EnergyThresholdForHavingSSB = 10 eV\<close>, \<open>EnergyThresholdForHavingBD = 5 eV\<close> and a
  parameter \<open>EnergyThresholdToInduceBD = 7 eV\<close>, the constructor leaves the BD threshold
  at its default \<open>17.5 eV\<close> and sets the SSB threshold to \<open>7 eV\<close>.
\<close>

theorem C5_BD_parameter_sets_SSB_threshold:
  "map_sum id fThresEdepForSSB
     (ScoreClusteredDNADamage
        (Map.empty(''EnergyThresholdForHavingSSB'' \<mapsto> DoubleParameter (10 * eV),
                   ''EnergyThresholdForHavingBD'' \<mapsto> DoubleParameter (5 * eV),
                   ''EnergyThresholdToInduceBD'' \<mapsto> DoubleParameter (7 * eV))) 0 1 2)
     = Inr (7 * eV)
   \<and> map_sum id fThresEdepForBD
     (ScoreClusteredDNADamage
        (Map.empty(''EnergyThresholdForHavingSSB'' \<mapsto> DoubleParameter (10 * eV),
                   ''EnergyThresholdForHavingBD'' \<mapsto> DoubleParameter (5 * eV),
                   ''EnergyThresholdToInduceBD'' \<mapsto> DoubleParameter (7 * eV))) 0 1 2)
     = Inr (17.5 * eV)"
  by (simp add: ScoreClusteredDNADamage_def default_members_def ParameterExists_def
      GetDoubleParameter_def GetIntegerParameter_def)

end
